theory Spec2Isabelle
  imports Complex_Main
begin

section \<open>NetBuddy: the session facade of \<^verbatim>\<open>netbuddy.py\<close>\<close>

text \<open>
  The module holds one class, \<^verbatim>\<open>NetBuddy\<close>, whose methods are static and whose only
  piece of state is the class attribute \<^verbatim>\<open>active\<close>. Everything else the methods do
  is an effect on the outside world: lines printed to standard output, and child processes
  started through \<^verbatim>\<open>subprocess.check_output\<close>. The model threads a record that holds
  the flag together with a log of both kinds of effect, so that "prints only the notice"
  and "starts no process" are statements about that record.
\<close>

subsection \<open>Exception classes\<close>

text \<open>
  The classes an exception handler around a NetBuddy call can meet: the five declared in
  the class body (lines 34-57), the two that \<^verbatim>\<open>check_output\<close> raises, and their
  ancestors in Python's built-in hierarchy. \<open>base\<close> is the superclass written in each
  class statement.
\<close>

datatype pyclass =
    BaseException
  | Exception
  | OSError
  | FileNotFoundError
  | SubprocessError
  | CalledProcessError
  | NetBuddyException
  | NotStartedException
  | NotWindowsException
  | MissingCommandException
  | QuestionableException

fun base :: "pyclass \<Rightarrow> pyclass option" where
  "base BaseException = None"
| "base Exception = Some BaseException"
| "base OSError = Some Exception"
| "base FileNotFoundError = Some OSError"
| "base SubprocessError = Some Exception"
| "base CalledProcessError = Some SubprocessError"
| "base NetBuddyException = Some BaseException"
| "base NotStartedException = Some NetBuddyException"
| "base NotWindowsException = Some NetBuddyException"
| "base MissingCommandException = Some NetBuddyException"
| "base QuestionableException = Some NetBuddyException"

text \<open>The distance of a class from the root; it decreases along \<open>base\<close>.\<close>

fun depth :: "pyclass \<Rightarrow> nat" where
  "depth BaseException = 0"
| "depth Exception = 1"
| "depth OSError = 2"
| "depth FileNotFoundError = 3"
| "depth SubprocessError = 2"
| "depth CalledProcessError = 3"
| "depth NetBuddyException = 1"
| "depth NotStartedException = 2"
| "depth NotWindowsException = 2"
| "depth MissingCommandException = 2"
| "depth QuestionableException = 2"

text \<open>\<^verbatim>\<open>issubclass(c, d)\<close>: walk up from \<open>c\<close> until \<open>d\<close> or the root is met.\<close>

function issubclass :: "pyclass \<Rightarrow> pyclass \<Rightarrow> bool" where
  "issubclass c d =
     (if c = d then True
      else (case base c of None \<Rightarrow> False | Some p \<Rightarrow> issubclass p d))"
  by pat_completeness auto
termination
proof (relation "measure (\<lambda>(c, d). depth c)")
  show "wf (measure (\<lambda>(c, d). depth c))"
    by simp
next
  fix c d p :: pyclass
  assume "base c = Some p"
  then have "depth p < depth c"
    by (cases c) auto
  then show "((p, d), (c, d)) \<in> measure (\<lambda>(c, d). depth c)"
    by simp
qed

declare issubclass.simps [simp del]

text \<open>
  A raised exception: its class and the data it was built with. The NetBuddy exceptions
  carry their message; \<^verbatim>\<open>CalledProcessError\<close> carries the exit status and the command;
  \<^verbatim>\<open>FileNotFoundError\<close> the command that could not be started.
\<close>

datatype exn =
    NotStartedExc string
  | NotWindowsExc string
  | MissingCommandExc string
  | QuestionableExc string
  | CalledProcessErr int "string list"
  | FileNotFoundErr "string list"

fun class_of :: "exn \<Rightarrow> pyclass" where
  "class_of (NotStartedExc m) = NotStartedException"
| "class_of (NotWindowsExc m) = NotWindowsException"
| "class_of (MissingCommandExc m) = MissingCommandException"
| "class_of (QuestionableExc m) = QuestionableException"
| "class_of (CalledProcessErr rc cmd) = CalledProcessError"
| "class_of (FileNotFoundErr cmd) = FileNotFoundError"

text \<open>A clause \<^verbatim>\<open>except H:\<close> handles an exception whose class is a subclass of \<open>H\<close>.\<close>

definition catches :: "pyclass \<Rightarrow> exn \<Rightarrow> bool" where
  "catches h e = issubclass (class_of e) h"

subsection \<open>The world and the session\<close>

text \<open>
  What a child process does is not decided by the program. \<open>Exited rc out\<close> is a process
  that ran and ended with status \<open>rc\<close> after writing \<open>out\<close>; \<open>NotLaunched\<close> is a
  command the operating system could not start. The environment gives the platform name
  (\<^verbatim>\<open>os.name\<close>) and, for the \<open>k\<close>-th process the program starts and its argument list,
  what that process does.
\<close>

datatype proc_result = Exited int string | NotLaunched

record env =
  os_name :: string
  proc :: "nat \<Rightarrow> string list \<Rightarrow> proc_result"

record session =
  active :: bool
  stdout :: "string list"
  calls :: "string list list"

datatype pyval = PyNone | PyFalse | PyInstance

type_synonym 'a result = "(exn + 'a) \<times> session"

definition py_print :: "string \<Rightarrow> session \<Rightarrow> session" where
  "py_print line s = s\<lparr>stdout := stdout s @ [line]\<rparr>"

text \<open>
  \<^verbatim>\<open>check_output(args)\<close> starts the command, and returns what it wrote when it ends
  with status 0; a non-zero status raises \<^verbatim>\<open>CalledProcessError\<close>, a command that
  cannot be started raises \<^verbatim>\<open>FileNotFoundError\<close>. The attempt is logged in every case.
\<close>

definition check_output :: "env \<Rightarrow> string list \<Rightarrow> session \<Rightarrow> string result" where
  "check_output e args s =
     (let s' = s\<lparr>calls := calls s @ [args]\<rparr>
      in case proc e (length (calls s)) args of
           NotLaunched \<Rightarrow> (Inl (FileNotFoundErr args), s')
         | Exited rc out \<Rightarrow>
             if rc = 0 then (Inr out, s') else (Inl (CalledProcessErr rc args), s'))"

subsection \<open>Session lifecycle\<close>

text \<open>Lines 71-75.\<close>

definition ensure_session_active :: "session \<Rightarrow> pyval result" where
  "ensure_session_active s =
     (if \<not> active s
      then (Inl (NotStartedExc ''No session active, use NetBuddy.start() first''), s)
      else (Inr PyNone, s))"

text \<open>Lines 77-94. Bytes are false in a condition exactly when there are none.\<close>

definition start :: "env \<Rightarrow> session \<Rightarrow> pyval result" where
  "start e s =
     (if active s
      then (Inr PyNone,
            py_print ''A session is already active. To quit, use NetBuddy.quit().'' s)
      else
        let s1 = py_print ''Session starting...'' s;
            s2 = py_print ''Checking platform...'' s1
        in if os_name e \<noteq> ''nt''
           then (Inl (NotWindowsExc ''This program is only supported on Windows.''), s2)
           else
             let s3 = py_print ''Looking for required commands...'' s2
             in case check_output e [''ping'', ''/?''] s3 of
                  (Inl x, s4) \<Rightarrow> (Inl x, s4)
                | (Inr out, s4) \<Rightarrow>
                    if out = []
                    then (Inl (MissingCommandExc
                            ''Missing command 'ping'. This is unexpected for Windows devices.''),
                          s4)
                    else
                      let s5 = s4\<lparr>active := True\<rparr>
                      in (Inr PyNone,
                          py_print ''Session started. Run NetBuddy.help() for options.'' s5))"

text \<open>Lines 96-100.\<close>

definition quit' :: "session \<Rightarrow> pyval result" where
  "quit' s = (Inr PyNone, py_print ''Session ended.'' (s\<lparr>active := False\<rparr>))"

text \<open>
  Lines 59-69: \<^verbatim>\<open>__init__\<close> calls \<^verbatim>\<open>self.start()\<close>, drops what it returns and ends
  without a return statement. \<open>NetBuddy_new\<close> is the call \<^verbatim>\<open>NetBuddy()\<close>: it yields
  the new instance when \<^verbatim>\<open>__init__\<close> returns, and the exception otherwise.
\<close>

definition init :: "env \<Rightarrow> session \<Rightarrow> pyval result" where
  "init e s =
     (case start e s of
        (Inl x, s') \<Rightarrow> (Inl x, s')
      | (Inr v, s') \<Rightarrow> (Inr PyNone, s'))"

definition NetBuddy_new :: "env \<Rightarrow> session \<Rightarrow> pyval result" where
  "NetBuddy_new e s =
     (case init e s of
        (Inl x, s') \<Rightarrow> (Inl x, s')
      | (Inr v, s') \<Rightarrow> (Inr PyInstance, s'))"

text \<open>At import the class body has run line 32 and nothing else.\<close>

definition initial :: session where
  "initial = \<lparr>active = False, stdout = [], calls = []\<rparr>"

subsection \<open>The usage table\<close>

text \<open>Lines 102-131: twenty-seven \<^verbatim>\<open>print\<close> calls, no test of the flag.\<close>

definition help_lines :: "string list" where
  "help_lines =
     [''NetBuddy by Dylan Halladay                                                           '',
      CHR 0x27 # ''NetBuddy' has been omitted from the beginning of these items for readability.       '',
      ''For example, to start a session, use NetBuddy.start(), not just .start()             '',
      ''All options and methods print to screen and return False upon failure                '',
      ''Options: ----------------------------------------------------------------------------'',
      ''-- .start()                       : Start NetBuddy session, required for all methods '',
      ''-- .quit()                        : Cleanly quits NetBuddy session                   '',
      ''-- .help()                        : Display this screen                              '',
      ''Methods: ----------------------------------------------------------------------------'',
      ''-- .test_connection()             : Test if your device is online (alias: test)      '',
      ''-- .ping(address)                 : Ping a URL or IP address                         '',
      ''-- .measure_ping()                : Measure your ping (alias: measure)               '',
      ''-- .send(data, url)               : Send data to a URL or IP address                 '',
      ''-- .get_my_IP                     : Get this device's IP address                     '',
      ''-- .get_my_hostname               : Get this device's hostname                       '',
      ''-- .get_hostname(address)         : Get the hostnames of the specified device        '',
      ''-- .get_IPs                       : Get the IP of every device on this network       '',
      ''-- .get_hostnames                 : Get the hostname of every device on this network '',
      ''Data: -------------------------------------------------------------------------------'',
      ''-- .active                        = True if a session is active, otherwise False     '',
      ''Exceptions: -------------------------------------------------------------------------'',
      ''-- .NetBuddyException             - Base class for all following exceptions          '',
      ''-- .NotStartedException           - Tried to use a method before starting session    '',
      ''-- .NotWindowsException           - Device platform is not Windows (unsupported)     '',
      ''-- .MissingCommandException       - Required command was not found                   '',
      ''How to import: ----------------------------------------------------------------------'',
      ''from netbuddy import NetBuddy                                                        '']"

definition help' :: "session \<Rightarrow> pyval result" where
  "help' s = (Inr PyNone, fold py_print help_lines s)"

subsection \<open>The connectivity test\<close>

text \<open>
  \<^verbatim>\<open>str\<close> of an integer, as the \<^verbatim>\<open>%s\<close> conversions of line 175 produce it.
\<close>

definition digit_char :: "nat \<Rightarrow> char" where
  "digit_char d = ''0123456789'' ! d"

function str_nat :: "nat \<Rightarrow> string" where
  "str_nat n =
     (if n < 10 then [digit_char n] else str_nat (n div 10) @ [digit_char (n mod 10)])"
  by pat_completeness auto
termination
  by (relation "measure id") auto

declare str_nat.simps [simp del]

definition str_int :: "int \<Rightarrow> string" where
  "str_int i = (if i < 0 then CHR ''-'' # str_nat (nat (- i)) else str_nat (nat i))"

text \<open>
  Line 174 divides two integers with \<^verbatim>\<open>/\<close>, multiplies by 100 and truncates with
  \<^verbatim>\<open>int\<close>. The count is one of 0..4 there, so the quotient is a multiple of a quarter
  and the product a multiple of 25: both are exact in binary floating point, and exact
  rational arithmetic gives the same number. \<^verbatim>\<open>int\<close> rounds towards zero.
\<close>

definition py_int :: "rat \<Rightarrow> int" where
  "py_int x = (if 0 \<le> x then \<lfloor>x\<rfloor> else \<lceil>x\<rceil>)"

definition summary_line :: "int \<Rightarrow> int \<Rightarrow> int \<Rightarrow> string" where
  "summary_line success_count test_count success_rate =
     str_int success_count @ ''/'' @ str_int test_count @ '' tests passed (''
       @ str_int success_rate @ ''%)''"

text \<open>
  Lines 142-148, 150-156, 158-164 and 166-172 are one block written four times: run the
  command; on \<^verbatim>\<open>CalledProcessError\<close> print the failure line; when nothing was raised
  add one to the count and print the success line. Any other exception leaves the block.
  \<open>ping_test\<close> is that block, with the command, the two lines and the count so far.
\<close>

definition ping_test ::
  "env \<Rightarrow> string list \<Rightarrow> string \<Rightarrow> string \<Rightarrow> int \<Rightarrow> session \<Rightarrow> int result" where
  "ping_test e args failed passed success_count s =
     (case check_output e args s of
        (Inl x, s') \<Rightarrow>
          if catches CalledProcessError x
          then (Inr success_count, py_print failed s')
          else (Inl x, s')
      | (Inr out, s') \<Rightarrow> (Inr (success_count + 1), py_print passed s'))"

text \<open>Lines 133-177. The tab of the source's \<^verbatim>\<open>\t\<close> is the character 9.\<close>

definition test_connection :: "env \<Rightarrow> session \<Rightarrow> pyval result" where
  "test_connection e s =
     (case ensure_session_active s of
        (Inl x, s0) \<Rightarrow> (Inl x, s0)
      | (Inr u, s0) \<Rightarrow>
     let success_count = 0;
         test_count = 4;
         s1 = py_print ''Running 4 tests:'' s0
     in
     case ping_test e [''ping'', ''-n'', ''2'', ''-l'', ''32'', ''www.google.com'']
            (''-- Test 1 failed.'' @ [CHR 0x09] @ ''(www.google.com)'')
            (''-- Test 1 passed.'' @ [CHR 0x09] @ ''(www.google.com)'') success_count s1 of
        (Inl x, s2) \<Rightarrow> (Inl x, s2)
      | (Inr c1, s2) \<Rightarrow>
     case ping_test e [''ping'', ''-n'', ''2'', ''-l'', ''32'', ''twitter.com'']
            (''-- Test 2 failed.'' @ [CHR 0x09] @ ''(twitter.com)'')
            (''-- Test 2 passed.'' @ [CHR 0x09] @ ''(twitter.com)'') c1 s2 of
        (Inl x, s3) \<Rightarrow> (Inl x, s3)
      | (Inr c2, s3) \<Rightarrow>
     case ping_test e [''ping'', ''-n'', ''2'', ''-l'', ''32'', ''www.python.org'']
            (''-- Test 3 failed.'' @ [CHR 0x09] @ ''(www.python.org)'')
            (''-- Test 3 passed.'' @ [CHR 0x09] @ ''(www.python.org)'') c2 s3 of
        (Inl x, s4) \<Rightarrow> (Inl x, s4)
      | (Inr c3, s4) \<Rightarrow>
     case ping_test e [''ping'', ''-n'', ''2'', ''-l'', ''32'', ''github.com'']
            (''-- Test 4 failed.'' @ [CHR 0x09] @ ''(github.com)'')
            (''-- Test 4 passed.'' @ [CHR 0x09] @ ''(github.com)'') c3 s4 of
        (Inl x, s5) \<Rightarrow> (Inl x, s5)
      | (Inr c4, s5) \<Rightarrow>
     let success_rate = py_int (100 * (of_int c4 / of_int test_count));
         s6 = py_print (summary_line c4 test_count success_rate) s5
     in if \<not> success_rate > 0 then (Inr PyFalse, s6) else (Inr PyNone, s6))"

text \<open>Lines 179-182.\<close>

definition test :: "env \<Rightarrow> session \<Rightarrow> pyval result" where
  "test e s = test_connection e s"

subsection \<open>The operations as one step function\<close>

text \<open>
  The callable surface whose body the source gives: the constructor and the five static
  methods. (\<^verbatim>\<open>ping\<close> is cut off after its docstring.)
\<close>

datatype operation = Init | Start | Quit | Help | TestConnection | Test

fun exec :: "env \<Rightarrow> operation \<Rightarrow> session \<Rightarrow> pyval result" where
  "exec e Init s = NetBuddy_new e s"
| "exec e Start s = start e s"
| "exec e Quit s = quit' s"
| "exec e Help s = help' s"
| "exec e TestConnection s = test_connection e s"
| "exec e Test s = test e s"

text \<open>
  For stating what the four probes did: the argument list of a probe, whether the
  \<open>k\<close>-th process of the world is a ping that ended with status 0, whether it ran at
  all, and how many of the four probes that follow \<open>n\<close> earlier processes succeed.
\<close>

definition probe_args :: "string \<Rightarrow> string list" where
  "probe_args host = [''ping'', ''-n'', ''2'', ''-l'', ''32'', host]"

definition targets :: "string list" where
  "targets = [''www.google.com'', ''twitter.com'', ''www.python.org'', ''github.com'']"

definition probe_ran :: "env \<Rightarrow> nat \<Rightarrow> string \<Rightarrow> bool" where
  "probe_ran e k host = (case proc e k (probe_args host) of
                           Exited rc out \<Rightarrow> True | NotLaunched \<Rightarrow> False)"

definition probe_ok :: "env \<Rightarrow> nat \<Rightarrow> string \<Rightarrow> bool" where
  "probe_ok e k host = (case proc e k (probe_args host) of
                          Exited rc out \<Rightarrow> rc = 0 | NotLaunched \<Rightarrow> False)"

definition all_ran :: "env \<Rightarrow> nat \<Rightarrow> bool" where
  "all_ran e n =
     (probe_ran e n ''www.google.com'' \<and> probe_ran e (n + 1) ''twitter.com'' \<and>
      probe_ran e (n + 2) ''www.python.org'' \<and> probe_ran e (n + 3) ''github.com'')"

definition passed :: "env \<Rightarrow> nat \<Rightarrow> int" where
  "passed e n =
     (if probe_ok e n ''www.google.com'' then 1 else 0) +
     (if probe_ok e (n + 1) ''twitter.com'' then 1 else 0) +
     (if probe_ok e (n + 2) ''www.python.org'' then 1 else 0) +
     (if probe_ok e (n + 3) ''github.com'' then 1 else 0)"

text \<open>The line a probe prints, from its number, its host and whether it succeeded.\<close>

definition probe_line :: "string \<Rightarrow> bool \<Rightarrow> string \<Rightarrow> string" where
  "probe_line number ok host =
     ''-- Test '' @ number @ (if ok then '' passed.'' else '' failed.'') @ [CHR 0x09]
       @ ''('' @ host @ '')''"

subsection \<open>Concrete worlds\<close>

text \<open>
  A machine that is not Windows; a Windows machine where every command runs and succeeds;
  one where no command can be started; one where \<^verbatim>\<open>ping /?\<close> runs but writes nothing;
  one where the probes of the second and fourth host fail; one where every probe fails;
  one where the probe of the second host cannot be started.
\<close>

definition posix_env :: env where
  "posix_env = \<lparr>os_name = ''posix'', proc = (\<lambda>k args. NotLaunched)\<rparr>"

definition nt_env :: env where
  "nt_env = \<lparr>os_name = ''nt'', proc = (\<lambda>k args. Exited 0 ''Usage: ping'')\<rparr>"

definition nt_no_ping :: env where
  "nt_no_ping = \<lparr>os_name = ''nt'', proc = (\<lambda>k args. NotLaunched)\<rparr>"

definition nt_silent_ping :: env where
  "nt_silent_ping = \<lparr>os_name = ''nt'', proc = (\<lambda>k args. Exited 0 [])\<rparr>"

definition nt_two_down :: env where
  "nt_two_down =
     \<lparr>os_name = ''nt'',
      proc = (\<lambda>k args. if args = probe_args ''twitter.com'' \<or> args = probe_args ''github.com''
                         then Exited 1 [] else Exited 0 ''Reply'')\<rparr>"

definition nt_offline :: env where
  "nt_offline =
     \<lparr>os_name = ''nt'',
      proc = (\<lambda>k args. if args = [''ping'', ''/?''] then Exited 0 ''Usage: ping''
                         else Exited 1 [])\<rparr>"

definition nt_ping_vanishes :: env where
  "nt_ping_vanishes =
     \<lparr>os_name = ''nt'',
      proc = (\<lambda>k args. if args = probe_args ''twitter.com'' then NotLaunched
                         else Exited 0 ''Reply'')\<rparr>"

text \<open>A session that has been started and has printed and run nothing yet.\<close>

definition running :: session where
  "running = \<lparr>active = True, stdout = [], calls = []\<rparr>"

section \<open>Properties\<close>

subsection \<open>One probe, and the four in a row\<close>

lemma ping_test_ran:
  "probe_ran e (length (calls s)) host \<Longrightarrow>
   ping_test e (probe_args host) f p c s =
     (Inr (c + (if probe_ok e (length (calls s)) host then 1 else 0)),
      s\<lparr>calls := calls s @ [probe_args host],
        stdout := stdout s @ [if probe_ok e (length (calls s)) host then p else f]\<rparr>)"
  by (auto simp: ping_test_def check_output_def probe_ran_def probe_ok_def py_print_def
      catches_def issubclass.simps Let_def split: proc_result.splits)

lemma py_int_quarters:
  assumes "0 \<le> k"
  shows "py_int (100 * (of_int k / 4)) = 25 * k"
proof -
  have eq: "100 * (rat_of_int k / 4) = rat_of_int (25 * k)"
    by simp
  have "0 \<le> rat_of_int (25 * k)"
    using assms by simp
  then have "py_int (rat_of_int (25 * k)) = \<lfloor>rat_of_int (25 * k)\<rfloor>"
    unfolding py_int_def by (rule if_P)
  also have "\<dots> = 25 * k"
    by (rule floor_of_int)
  finally show ?thesis
    unfolding eq .
qed

lemma passed_bounds: "0 \<le> passed e n \<and> passed e n \<le> 4"
  by (simp add: passed_def)

lemma str_int_digit: "0 \<le> k \<Longrightarrow> k < 10 \<Longrightarrow> str_int k = [digit_char (nat k)]"
  by (simp add: str_int_def str_nat.simps)

lemma add3: "n + 3 = Suc (Suc (Suc n))"
  by simp

lemma probe_line_if:
  "probe_line number ok host =
     (if ok then ''-- Test '' @ number @ '' passed.'' @ [CHR 0x09] @ ''('' @ host @ '')''
      else ''-- Test '' @ number @ '' failed.'' @ [CHR 0x09] @ ''('' @ host @ '')'')"
  by (simp add: probe_line_def)

lemma if_result: "(if c then (Inr a, S) else (Inr b, S)) = (Inr (if c then a else b), S)"
  by simp

lemma test_connection_ran:
  assumes "active s" and "all_ran e (length (calls s))"
  shows "test_connection e s =
     (Inr (if passed e (length (calls s)) = 0 then PyFalse else PyNone),
      s\<lparr>calls := calls s @ map probe_args targets,
        stdout := stdout s @
          [''Running 4 tests:'',
           probe_line ''1'' (probe_ok e (length (calls s)) ''www.google.com'') ''www.google.com'',
           probe_line ''2'' (probe_ok e (length (calls s) + 1) ''twitter.com'') ''twitter.com'',
           probe_line ''3'' (probe_ok e (length (calls s) + 2) ''www.python.org'') ''www.python.org'',
           probe_line ''4'' (probe_ok e (length (calls s) + 3) ''github.com'') ''github.com'',
           summary_line (passed e (length (calls s))) 4 (25 * passed e (length (calls s)))]\<rparr>)"
proof -
  let ?n = "length (calls s)"
  have ran: "probe_ran e ?n ''www.google.com''" "probe_ran e (Suc ?n) ''twitter.com''"
    "probe_ran e (Suc (Suc ?n)) ''www.python.org''" "probe_ran e (Suc (Suc (Suc ?n))) ''github.com''"
    using assms(2) by (simp_all add: all_ran_def add3)
  have rate: "py_int (100 * (of_int (passed e ?n) / 4)) = 25 * passed e ?n"
    by (rule py_int_quarters) (simp add: passed_bounds)
  have cnt: "(if probe_ok e ?n ''www.google.com'' then 1 else 0) +
     (if probe_ok e (Suc ?n) ''twitter.com'' then 1 else 0) +
     (if probe_ok e (Suc (Suc ?n)) ''www.python.org'' then 1 else 0) +
     (if probe_ok e (Suc (Suc (Suc ?n))) ''github.com'' then 1 else (0::int)) = passed e ?n"
    by (simp add: passed_def add3)
  have rate': "py_int (25 * rat_of_int (passed e ?n)) = 25 * passed e ?n"
    using rate by simp
  have pos: "(0 < passed e ?n) = (passed e ?n \<noteq> 0)"
    using passed_bounds [of e ?n] by auto
  show ?thesis
    unfolding test_connection_def
    by (simp add: ensure_session_active_def assms(1) py_print_def
       ping_test_ran [unfolded probe_args_def] ran [unfolded probe_args_def] Let_def
       cnt rate' pos add3 targets_def probe_args_def probe_line_if if_result
       split del: if_split cong: if_cong)
qed

subsection \<open>What each operation does to the flag\<close>

lemma start_returns_None: "start e s = (Inr v, s') \<Longrightarrow> v = PyNone"
  by (auto simp: start_def check_output_def Let_def
      split: if_splits prod.splits sum.splits proc_result.splits)

lemma start_success_active: "start e s = (Inr v, s') \<Longrightarrow> active s'"
  by (auto simp: start_def check_output_def Let_def py_print_def
      split: if_splits prod.splits sum.splits proc_result.splits)

lemma start_activates:
  assumes "\<not> active s" and "start e s = (r, s')" and "active s'"
  shows "r = Inr PyNone \<and> os_name e = ''nt'' \<and>
         (\<exists>out. out \<noteq> [] \<and> proc e (length (calls s)) [''ping'', ''/?''] = Exited 0 out)"
  using assms
  by (auto simp: start_def check_output_def Let_def py_print_def
      split: if_splits prod.splits sum.splits proc_result.splits)

lemma start_keeps_active: "active s \<Longrightarrow> active (snd (start e s))"
  by (simp add: start_def py_print_def)

lemma start_raise_inactive:
  "\<not> active s \<Longrightarrow> start e s = (Inl x, s') \<Longrightarrow> \<not> active s'"
  by (auto simp: start_def check_output_def Let_def py_print_def
      split: if_splits prod.splits sum.splits proc_result.splits)

lemma active_fold_print: "active (fold py_print ls s) = active s"
  by (induction ls arbitrary: s) (simp_all add: py_print_def)

lemma help_active: "active (snd (help' s)) = active s"
  by (simp add: help'_def active_fold_print)

lemma active_check_output: "active (snd (check_output e args s)) = active s"
  by (simp add: check_output_def Let_def split: proc_result.splits)

lemma active_ping_test: "active (snd (ping_test e args f p c s)) = active s"
  using active_check_output [of e args s]
  by (auto simp: ping_test_def py_print_def split: prod.splits sum.splits)

lemma test_connection_active: "active (snd (test_connection e s)) = active s"
proof -
  have step: "\<And>e args f p c s r s'. ping_test e args f p c s = (r, s') \<Longrightarrow> active s' = active s"
    using active_ping_test by (metis snd_conv)
  show ?thesis
    unfolding test_connection_def ensure_session_active_def Let_def
    by (auto simp: py_print_def split: prod.splits sum.splits dest!: step)
qed

lemma NetBuddy_new_start:
  "NetBuddy_new e s = (case start e s of (Inl x, s') \<Rightarrow> (Inl x, s') | (Inr v, s') \<Rightarrow> (Inr PyInstance, s'))"
  by (simp add: NetBuddy_new_def init_def split: prod.splits sum.splits)

lemma init_start: "init e s = start e s"
  by (auto simp: init_def split: prod.splits sum.splits dest: start_returns_None)

section \<open>The claims\<close>

subsection \<open>The gate\<close>

text \<open>
  C1. A gated operation called while no session is active raises the "not started"
  exception and does nothing else: \<^verbatim>\<open>test_connection\<close> and its alias \<^verbatim>\<open>test\<close>
  end with \<^verbatim>\<open>NotStartedException\<close>, and the session they leave is the one they
  were given, so no process was started, nothing was printed and the flag is still false.
\<close>

theorem not_started_gate:
  assumes "\<not> active s"
  shows "test_connection e s =
           (Inl (NotStartedExc ''No session active, use NetBuddy.start() first''), s) \<and>
         test e s =
           (Inl (NotStartedExc ''No session active, use NetBuddy.start() first''), s) \<and>
         calls (snd (test_connection e s)) = calls s \<and>
         stdout (snd (test_connection e s)) = stdout s \<and>
         \<not> active (snd (test_connection e s))"
  using assms by (simp add: test_def test_connection_def ensure_session_active_def)

text \<open>At the initial session on a Windows machine where every command would succeed.\<close>

theorem not_started_gate_witness:
  "\<not> active initial \<and>
   test_connection nt_env initial =
     (Inl (NotStartedExc ''No session active, use NetBuddy.start() first''), initial) \<and>
   test nt_env initial =
     (Inl (NotStartedExc ''No session active, use NetBuddy.start() first''), initial) \<and>
   calls (snd (test_connection nt_env initial)) = []"
proof -
  have h: "\<not> active initial"
    by (simp add: initial_def)
  show ?thesis
    using h not_started_gate [OF h, of nt_env] by (simp add: initial_def)
qed

subsection \<open>The summary and the returned value\<close>

text \<open>
  C2, as amended. When the session is active and each of the four ping processes runs to
  its end (with status zero or not), let \<open>X\<close> be the number that ended with status
  zero. Then \<open>0 \<le> X \<le> 4\<close>, the percentage \<^verbatim>\<open>int(100*X/4)\<close> is \<open>25 * X\<close>, the last
  line printed is \<^verbatim>\<open>X/4 tests passed (Y%)\<close> with that percentage, and the call returns
  \<^verbatim>\<open>False\<close> when \<open>X = 0\<close> and \<^verbatim>\<open>None\<close> otherwise.
\<close>

theorem summary_and_result:
  assumes "active s" and "all_ran e (length (calls s))" and "X = passed e (length (calls s))"
  shows "0 \<le> X \<and> X \<le> 4 \<and>
         py_int (100 * (of_int X / 4)) = 25 * X \<and>
         last (stdout (snd (test_connection e s))) =
           str_int X @ ''/4 tests passed ('' @ str_int (25 * X) @ ''%)'' \<and>
         fst (test_connection e s) = Inr (if X = 0 then PyFalse else PyNone) \<and>
         (fst (test_connection e s) = Inr PyFalse \<longleftrightarrow> X = 0)"
proof -
  have b: "0 \<le> X" "X \<le> 4"
    using passed_bounds [of e "length (calls s)"] assms(3) by simp_all
  have four: "str_int 4 = ''4''"
    by (simp add: str_int_digit digit_char_def)
  show ?thesis
    using b py_int_quarters [OF b(1)]
    by (simp add: test_connection_ran [OF assms(1,2)] assms(3) summary_line_def four)
qed

text \<open>
  The two examples of the specification: the second and fourth probe fail, and all four
  fail.
\<close>

theorem summary_and_result_witness:
  "active running \<and> all_ran nt_two_down (length (calls running)) \<and>
   passed nt_two_down (length (calls running)) = 2 \<and>
   last (stdout (snd (test_connection nt_two_down running))) = ''2/4 tests passed (50%)'' \<and>
   fst (test_connection nt_two_down running) = Inr PyNone \<and>
   all_ran nt_offline (length (calls running)) \<and>
   passed nt_offline (length (calls running)) = 0 \<and>
   last (stdout (snd (test_connection nt_offline running))) = ''0/4 tests passed (0%)'' \<and>
   fst (test_connection nt_offline running) = Inr PyFalse"
proof -
  have a: "active running"
    by (simp add: running_def)
  have r2: "all_ran nt_two_down (length (calls running))"
    by (simp add: all_ran_def probe_ran_def nt_two_down_def probe_args_def running_def)
  have p2: "2 = passed nt_two_down (length (calls running))"
    by (simp add: passed_def probe_ok_def nt_two_down_def probe_args_def running_def)
  have r0: "all_ran nt_offline (length (calls running))"
    by (simp add: all_ran_def probe_ran_def nt_offline_def probe_args_def running_def)
  have p0: "0 = passed nt_offline (length (calls running))"
    by (simp add: passed_def probe_ok_def nt_offline_def probe_args_def running_def)
  have s: "str_int 2 = ''2''" "str_int 50 = ''50''" "str_int 0 = ''0''"
    by (simp_all add: str_int_def str_nat.simps digit_char_def)
  show ?thesis
    using a r2 r0 p2 [symmetric] p0 [symmetric]
      summary_and_result [OF a r2 p2] summary_and_result [OF a r0 p0]
    by (simp add: s)
qed

text \<open>
  Without the condition on the processes the statement fails. Here the first probe
  succeeds and the second ping cannot be started: \<^verbatim>\<open>FileNotFoundError\<close> is not a
  \<^verbatim>\<open>CalledProcessError\<close>, so it leaves \<^verbatim>\<open>test_connection\<close>; nothing is returned, and
  the last line printed is the one of the first probe, not a summary.
\<close>

theorem summary_missing_counterexample:
  "active running \<and>
   probe_ok nt_ping_vanishes (length (calls running)) ''www.google.com'' \<and>
   fst (test_connection nt_ping_vanishes running) =
     Inl (FileNotFoundErr (probe_args ''twitter.com'')) \<and>
   stdout (snd (test_connection nt_ping_vanishes running)) =
     [''Running 4 tests:'', probe_line ''1'' True ''www.google.com'']"
  by (simp add: running_def nt_ping_vanishes_def probe_ok_def probe_args_def
      test_connection_def ensure_session_active_def ping_test_def check_output_def
      py_print_def catches_def issubclass.simps Let_def probe_line_def)

subsection \<open>The four probes\<close>

text \<open>
  C3, as amended. When the session is active and each of the four ping processes runs to
  its end, \<^verbatim>\<open>test_connection\<close> raises nothing and starts exactly four processes, the
  pings of the four fixed hosts in their order, however many of them end with a non-zero
  status: each such failure is caught, prints its own line and leaves the count as it
  was. The count printed in the summary is the number of processes that ended with status
  zero, which lies between 0 and 4.
\<close>

theorem four_probes_always:
  assumes "active s" and "all_ran e (length (calls s))"
  shows "(\<exists>v. fst (test_connection e s) = Inr v) \<and>
         calls (snd (test_connection e s)) =
           calls s @ [probe_args ''www.google.com'', probe_args ''twitter.com'',
                      probe_args ''www.python.org'', probe_args ''github.com''] \<and>
         length (calls (snd (test_connection e s))) = length (calls s) + 4 \<and>
         stdout (snd (test_connection e s)) =
           stdout s @
           [''Running 4 tests:'',
            probe_line ''1'' (probe_ok e (length (calls s)) ''www.google.com'') ''www.google.com'',
            probe_line ''2'' (probe_ok e (length (calls s) + 1) ''twitter.com'') ''twitter.com'',
            probe_line ''3'' (probe_ok e (length (calls s) + 2) ''www.python.org'') ''www.python.org'',
            probe_line ''4'' (probe_ok e (length (calls s) + 3) ''github.com'') ''github.com'',
            summary_line (passed e (length (calls s))) 4 (25 * passed e (length (calls s)))] \<and>
         0 \<le> passed e (length (calls s)) \<and> passed e (length (calls s)) \<le> 4"
  by (simp add: test_connection_ran [OF assms] passed_bounds targets_def)

text \<open>Every probe fails: four processes all the same, four failure lines, a count of 0.\<close>

theorem four_probes_always_witness:
  "active running \<and> all_ran nt_offline (length (calls running)) \<and>
   (\<exists>v. fst (test_connection nt_offline running) = Inr v) \<and>
   calls (snd (test_connection nt_offline running)) =
     [[''ping'', ''-n'', ''2'', ''-l'', ''32'', ''www.google.com''],
      [''ping'', ''-n'', ''2'', ''-l'', ''32'', ''twitter.com''],
      [''ping'', ''-n'', ''2'', ''-l'', ''32'', ''www.python.org''],
      [''ping'', ''-n'', ''2'', ''-l'', ''32'', ''github.com'']] \<and>
   stdout (snd (test_connection nt_offline running)) =
     [''Running 4 tests:'',
      ''-- Test 1 failed.'' @ [CHR 0x09] @ ''(www.google.com)'',
      ''-- Test 2 failed.'' @ [CHR 0x09] @ ''(twitter.com)'',
      ''-- Test 3 failed.'' @ [CHR 0x09] @ ''(www.python.org)'',
      ''-- Test 4 failed.'' @ [CHR 0x09] @ ''(github.com)'',
      ''0/4 tests passed (0%)'']"
proof -
  have a: "active running"
    by (simp add: running_def)
  have r: "all_ran nt_offline (length (calls running))"
    by (simp add: all_ran_def probe_ran_def nt_offline_def probe_args_def running_def)
  have p: "passed nt_offline 0 = 0"
    by (simp add: passed_def probe_ok_def nt_offline_def probe_args_def)
  have ok: "\<And>k h. h \<in> set targets \<Longrightarrow> \<not> probe_ok nt_offline k h"
    by (auto simp: probe_ok_def nt_offline_def probe_args_def targets_def)
  have z: "str_int 0 = ''0''" "str_int 4 = ''4''"
    by (simp_all add: str_int_digit digit_char_def)
  show ?thesis
    using a r four_probes_always [OF a r]
    by (simp add: p ok targets_def probe_line_def summary_line_def z probe_args_def running_def)
qed

text \<open>
  A ping that cannot be started is a failure that is not caught: on a machine without the
  command the first probe raises \<^verbatim>\<open>FileNotFoundError\<close> out of \<^verbatim>\<open>test_connection\<close>,
  and the other three probes are never issued.
\<close>

theorem probe_aborts_counterexample:
  "active running \<and>
   fst (test_connection nt_no_ping running) =
     Inl (FileNotFoundErr (probe_args ''www.google.com'')) \<and>
   calls (snd (test_connection nt_no_ping running)) = [probe_args ''www.google.com''] \<and>
   stdout (snd (test_connection nt_no_ping running)) = [''Running 4 tests:'']"
  by (simp add: running_def nt_no_ping_def probe_args_def
      test_connection_def ensure_session_active_def ping_test_def check_output_def
      py_print_def catches_def issubclass.simps Let_def)

subsection \<open>Starting a session\<close>

text \<open>
  C4. On Windows, with no session active, a \<^verbatim>\<open>ping\<close> that cannot be run should make
  \<^verbatim>\<open>start\<close> fail with \<^verbatim>\<open>MissingCommandException\<close>, the exception documented as
  "Thrown if a command is not found". The code does not do that: \<^verbatim>\<open>check_output\<close>
  raises \<^verbatim>\<open>FileNotFoundError\<close> before the test of line 90 is reached, and that is the
  exception \<^verbatim>\<open>start\<close> ends with. It is no NetBuddy exception at all. The flag stays
  false.
\<close>

theorem start_ping_not_launched:
  "start nt_no_ping initial =
     (Inl (FileNotFoundErr [''ping'', ''/?'']),
      \<lparr>active = False,
       stdout = [''Session starting...'', ''Checking platform...'',
                 ''Looking for required commands...''],
       calls = [[''ping'', ''/?'']]\<rparr>) \<and>
   class_of (FileNotFoundErr [''ping'', ''/?'']) \<noteq> MissingCommandException \<and>
   \<not> catches MissingCommandException (FileNotFoundErr [''ping'', ''/?'']) \<and>
   \<not> catches NetBuddyException (FileNotFoundErr [''ping'', ''/?''])"
  by (simp add: start_def nt_no_ping_def initial_def check_output_def py_print_def
      catches_def issubclass.simps Let_def)

text \<open>
  What \<^verbatim>\<open>start\<close> does in the neighbouring cases: a ping that runs, succeeds and writes
  nothing gives \<^verbatim>\<open>MissingCommandException\<close>; a ping that ends with a non-zero status
  gives \<^verbatim>\<open>CalledProcessError\<close>. The flag stays false in both.
\<close>

lemma start_no_output:
  assumes "\<not> active s" and "os_name e = ''nt''"
    and "proc e (length (calls s)) [''ping'', ''/?''] = Exited 0 []"
  shows "fst (start e s) =
           Inl (MissingCommandExc
                  ''Missing command 'ping'. This is unexpected for Windows devices.'') \<and>
         \<not> active (snd (start e s))"
  using assms by (simp add: start_def check_output_def py_print_def Let_def)

lemma start_nonzero_exit:
  assumes "\<not> active s" and "os_name e = ''nt''"
    and "proc e (length (calls s)) [''ping'', ''/?''] = Exited rc out" and "rc \<noteq> 0"
  shows "fst (start e s) = Inl (CalledProcessErr rc [''ping'', ''/?'']) \<and>
         \<not> active (snd (start e s))"
  using assms by (simp add: start_def check_output_def py_print_def Let_def)

text \<open>
  C5. With no session active on a platform whose name is not \<^verbatim>\<open>nt\<close>, \<^verbatim>\<open>start\<close>
  raises \<^verbatim>\<open>NotWindowsException\<close> after its first two lines, starts no process and
  leaves the flag false. That class and \<^verbatim>\<open>MissingCommandException\<close> are different and
  neither is a subclass of the other: a handler for one does not catch the other.
\<close>

theorem start_not_windows:
  assumes "\<not> active s" and "os_name e \<noteq> ''nt''"
  shows "start e s =
           (Inl (NotWindowsExc ''This program is only supported on Windows.''),
            s\<lparr>stdout := stdout s @ [''Session starting...'', ''Checking platform...'']\<rparr>) \<and>
         \<not> active (snd (start e s)) \<and>
         calls (snd (start e s)) = calls s \<and>
         NotWindowsException \<noteq> MissingCommandException \<and>
         \<not> catches MissingCommandException (NotWindowsExc m) \<and>
         \<not> catches NotWindowsException (MissingCommandExc m') \<and>
         catches NotWindowsException (NotWindowsExc m) \<and>
         catches MissingCommandException (MissingCommandExc m')"
  using assms by (simp add: start_def py_print_def Let_def catches_def issubclass.simps)

theorem start_not_windows_witness:
  "\<not> active initial \<and> os_name posix_env \<noteq> ''nt'' \<and>
   start posix_env initial =
     (Inl (NotWindowsExc ''This program is only supported on Windows.''),
      \<lparr>active = False, stdout = [''Session starting...'', ''Checking platform...''],
       calls = []\<rparr>)"
proof -
  have h: "\<not> active initial" "os_name posix_env \<noteq> ''nt''"
    by (simp_all add: initial_def posix_env_def)
  show ?thesis
    using h start_not_windows [OF h] by (simp add: initial_def)
qed

text \<open>
  C6. With a session already active, \<^verbatim>\<open>start\<close> prints the notice and returns. The
  session it leaves differs from the one it was given by that line only: the flag is
  still true and no process was started. The platform and the commands are not looked at,
  since the result is the same in every world.
\<close>

theorem start_when_active:
  assumes "active s"
  shows "start e s =
           (Inr PyNone,
            s\<lparr>stdout := stdout s @
               [''A session is already active. To quit, use NetBuddy.quit().'']\<rparr>) \<and>
         active (snd (start e s)) \<and>
         calls (snd (start e s)) = calls s \<and>
         start e s = start e' s"
  using assms by (simp add: start_def py_print_def)

theorem start_when_active_witness:
  "active running \<and>
   start posix_env running =
     (Inr PyNone,
      \<lparr>active = True,
       stdout = [''A session is already active. To quit, use NetBuddy.quit().''],
       calls = []\<rparr>) \<and>
   start posix_env running = start nt_env running"
proof -
  have h: "active running"
    by (simp add: running_def)
  show ?thesis
    using h start_when_active [OF h, of posix_env nt_env] by (auto simp: running_def)
qed

subsection \<open>Ending a session, and the lifecycle\<close>

text \<open>
  C7. \<^verbatim>\<open>quit\<close> returns with the flag false whatever the session was, and starts no
  process. In particular, when \<^verbatim>\<open>start\<close> succeeds from an inactive session the flag is
  true afterwards, and a \<^verbatim>\<open>quit\<close> right after it makes it false again.
\<close>

theorem quit_deactivates:
  "fst (quit' s) = Inr PyNone \<and>
   \<not> active (snd (quit' s)) \<and>
   calls (snd (quit' s)) = calls s \<and>
   (\<not> active s0 \<and> start e s0 = (Inr v, s1) \<longrightarrow> active s1 \<and> \<not> active (snd (quit' s1)))"
  by (auto simp: quit'_def py_print_def dest: start_success_active)

text \<open>From the initial session on a Windows machine with a working ping.\<close>

theorem quit_deactivates_witness:
  "\<not> active initial \<and>
   start nt_env initial =
     (Inr PyNone,
      \<lparr>active = True,
       stdout = [''Session starting...'', ''Checking platform...'',
                 ''Looking for required commands...'',
                 ''Session started. Run NetBuddy.help() for options.''],
       calls = [[''ping'', ''/?'']]\<rparr>) \<and>
   \<not> active (snd (quit'
     \<lparr>active = True,
      stdout = [''Session starting...'', ''Checking platform...'',
                ''Looking for required commands...'',
                ''Session started. Run NetBuddy.help() for options.''],
      calls = [[''ping'', ''/?'']]\<rparr>))"
proof -
  let ?s1 = "\<lparr>active = True,
      stdout = [''Session starting...'', ''Checking platform...'',
                ''Looking for required commands...'',
                ''Session started. Run NetBuddy.help() for options.''],
      calls = [[''ping'', ''/?'']]\<rparr>"
  have h: "\<not> active initial"
    by (simp add: initial_def)
  have st: "start nt_env initial = (Inr PyNone, ?s1)"
    by (simp add: start_def nt_env_def initial_def check_output_def py_print_def Let_def)
  show ?thesis
    using h st quit_deactivates [of initial initial nt_env PyNone ?s1] by simp
qed

text \<open>
  C8. The flag is a two-state machine. It is false initially. An operation takes it from
  false to true only if it is \<^verbatim>\<open>start\<close> (called directly or by the constructor), the
  call returned, the platform is \<^verbatim>\<open>nt\<close> and \<^verbatim>\<open>ping /?\<close> ended with status 0 and
  some output; and a \<^verbatim>\<open>start\<close> that returns leaves the flag true. An operation takes it
  from true to false only if it is \<^verbatim>\<open>quit\<close>, which always leaves it false.
  \<^verbatim>\<open>help\<close>, \<^verbatim>\<open>test_connection\<close> and \<^verbatim>\<open>test\<close> leave the flag as it was, whether
  they return or raise.
\<close>

theorem lifecycle:
  "\<not> active initial \<and>
   (exec e op s = (r, s') \<longrightarrow>
      (\<not> active s \<and> active s' \<longrightarrow>
         (op = Start \<or> op = Init) \<and> (\<exists>v. r = Inr v) \<and> fst (start e s) = Inr PyNone \<and>
         snd (start e s) = s' \<and> os_name e = ''nt'' \<and>
         (\<exists>out. out \<noteq> [] \<and> proc e (length (calls s)) [''ping'', ''/?''] = Exited 0 out)) \<and>
      (active s \<and> \<not> active s' \<longrightarrow> op = Quit) \<and>
      (op = Quit \<longrightarrow> \<not> active s') \<and>
      ((op = Start \<or> op = Init) \<and> (\<exists>v. r = Inr v) \<longrightarrow> active s') \<and>
      (op = Help \<or> op = TestConnection \<or> op = Test \<longrightarrow> active s' = active s))"
proof (intro conjI impI)
  show "\<not> active initial"
    by (simp add: initial_def)
next
  assume ex: "exec e op s = (r, s')" and fl: "\<not> active s \<and> active s'"
  have quit_no: "op \<noteq> Quit"
    using ex fl by (auto simp: quit'_def py_print_def)
  have help_no: "op \<noteq> Help"
    using ex fl help_active [of s] by auto
  have tc_no: "op \<noteq> TestConnection" "op \<noteq> Test"
    using ex fl test_connection_active [of e s] by (auto simp: test_def)
  show op: "op = Start \<or> op = Init"
    using quit_no help_no tc_no by (cases op) auto
  obtain r0 where st: "start e s = (r0, s')"
    using op ex by (auto simp: NetBuddy_new_start split: prod.splits sum.splits)
  have act: "r0 = Inr PyNone \<and> os_name e = ''nt'' \<and>
      (\<exists>out. out \<noteq> [] \<and> proc e (length (calls s)) [''ping'', ''/?''] = Exited 0 out)"
    using start_activates [OF _ st] fl by simp
  show "fst (start e s) = Inr PyNone"
    using act fl st by simp
  show "snd (start e s) = s'"
    using st by simp
  show "\<exists>v. r = Inr v"
    using op ex st act fl by (auto simp: NetBuddy_new_start)
  show "os_name e = ''nt''"
    using act fl by simp
  show "\<exists>out. out \<noteq> [] \<and> proc e (length (calls s)) [''ping'', ''/?''] = Exited 0 out"
    using act fl by simp
next
  assume ex: "exec e op s = (r, s')" and fl: "active s \<and> \<not> active s'"
  show "op = Quit"
  proof (cases op)
    case Init
    then show ?thesis
      using ex fl start_keeps_active [of s e]
      by (auto simp: NetBuddy_new_start split: prod.splits sum.splits)
  next
    case Start
    then show ?thesis
      using ex fl start_keeps_active [of s e] by auto
  next
    case Quit
    then show ?thesis by simp
  next
    case Help
    then show ?thesis
      using ex fl help_active [of s] by auto
  next
    case TestConnection
    then show ?thesis
      using ex fl test_connection_active [of e s] by auto
  next
    case Test
    then show ?thesis
      using ex fl test_connection_active [of e s] by (auto simp: test_def)
  qed
next
  assume "exec e op s = (r, s')" and "op = Quit"
  then show "\<not> active s'"
    by (auto simp: quit'_def py_print_def)
next
  assume "exec e op s = (r, s')" and "(op = Start \<or> op = Init) \<and> (\<exists>v. r = Inr v)"
  then show "active s'"
    by (auto simp: NetBuddy_new_start split: prod.splits sum.splits
        dest: start_success_active)
next
  assume ex: "exec e op s = (r, s')" and "op = Help \<or> op = TestConnection \<or> op = Test"
  then show "active s' = active s"
    using help_active [of s] test_connection_active [of e s] by (auto simp: test_def)
qed

text \<open>
  One run of each kind: a start that activates, a quit that deactivates, and the three
  operations that leave the flag alone.
\<close>

theorem lifecycle_witness:
  "\<not> active initial \<and>
   active (snd (exec nt_env Start initial)) \<and>
   os_name nt_env = ''nt'' \<and>
   (\<exists>out. out \<noteq> [] \<and>
      proc nt_env (length (calls initial)) [''ping'', ''/?''] = Exited 0 out) \<and>
   \<not> active (snd (exec nt_env Quit running)) \<and>
   active (snd (exec nt_env Help running)) \<and>
   active (snd (exec nt_two_down TestConnection running)) \<and>
   \<not> active (snd (exec nt_env Test initial))"
proof -
  have i: "\<not> active initial" and r: "active running"
    by (simp_all add: initial_def running_def)
  have a1: "active (snd (exec nt_env Start initial))"
    by (simp add: start_def nt_env_def initial_def check_output_def py_print_def Let_def)
  have st: "exec nt_env Start initial =
      (fst (exec nt_env Start initial), snd (exec nt_env Start initial))"
    by (rule prod.collapse [symmetric])
  have c1: "os_name nt_env = ''nt'' \<and>
      (\<exists>out. out \<noteq> [] \<and>
         proc nt_env (length (calls initial)) [''ping'', ''/?''] = Exited 0 out)"
    using lifecycle [of nt_env Start initial "fst (exec nt_env Start initial)"
        "snd (exec nt_env Start initial)"] st i a1
    by blast
  have q: "exec nt_env Quit running =
      (fst (exec nt_env Quit running), snd (exec nt_env Quit running))"
    by (rule prod.collapse [symmetric])
  have c2: "\<not> active (snd (exec nt_env Quit running))"
    using lifecycle [of nt_env Quit running "fst (exec nt_env Quit running)"
        "snd (exec nt_env Quit running)"] q
    by blast
  have h: "exec nt_env Help running =
      (fst (exec nt_env Help running), snd (exec nt_env Help running))"
    by (rule prod.collapse [symmetric])
  have c3: "active (snd (exec nt_env Help running))"
    using lifecycle [of nt_env Help running "fst (exec nt_env Help running)"
        "snd (exec nt_env Help running)"] h r
    by blast
  have tc: "exec nt_two_down TestConnection running =
      (fst (exec nt_two_down TestConnection running),
       snd (exec nt_two_down TestConnection running))"
    by (rule prod.collapse [symmetric])
  have c4: "active (snd (exec nt_two_down TestConnection running))"
    using lifecycle [of nt_two_down TestConnection running
        "fst (exec nt_two_down TestConnection running)"
        "snd (exec nt_two_down TestConnection running)"] tc r
    by blast
  have tt: "exec nt_env Test initial =
      (fst (exec nt_env Test initial), snd (exec nt_env Test initial))"
    by (rule prod.collapse [symmetric])
  have c5: "\<not> active (snd (exec nt_env Test initial))"
    using lifecycle [of nt_env Test initial "fst (exec nt_env Test initial)"
        "snd (exec nt_env Test initial)"] tt i
    by blast
  show ?thesis
    using i a1 c1 c2 c3 c4 c5 by blast
qed

subsection \<open>The exception hierarchy\<close>

text \<open>
  C9. \<^verbatim>\<open>NetBuddyException\<close> derives from \<^verbatim>\<open>BaseException\<close> and not from
  \<^verbatim>\<open>Exception\<close>. So an exception of any of the four NetBuddy classes is not caught by
  \<^verbatim>\<open>except Exception\<close>; among all the classes of the hierarchy, the handlers that catch
  it are those for \<^verbatim>\<open>NetBuddyException\<close>, for its own class and for
  \<^verbatim>\<open>BaseException\<close>, and no other.
\<close>

theorem netbuddy_errors_bypass_Exception:
  assumes "class_of x \<in> {NotStartedException, NotWindowsException,
                          MissingCommandException, QuestionableException}"
  shows "base NetBuddyException = Some BaseException \<and>
         \<not> issubclass NetBuddyException Exception \<and>
         \<not> catches Exception x \<and>
         (catches h x \<longleftrightarrow> h = NetBuddyException \<or> h = class_of x \<or> h = BaseException)"
  using assms by (cases x; cases h) (simp_all add: catches_def issubclass.simps)

theorem netbuddy_errors_bypass_Exception_witness:
  "class_of (NotStartedExc ''No session active, use NetBuddy.start() first'')
     \<in> {NotStartedException, NotWindowsException,
         MissingCommandException, QuestionableException} \<and>
   \<not> catches Exception (NotStartedExc ''No session active, use NetBuddy.start() first'') \<and>
   catches NetBuddyException (NotStartedExc ''No session active, use NetBuddy.start() first'') \<and>
   catches BaseException (NotStartedExc ''No session active, use NetBuddy.start() first'') \<and>
   \<not> catches OSError (NotStartedExc ''No session active, use NetBuddy.start() first'')"
proof -
  let ?x = "NotStartedExc ''No session active, use NetBuddy.start() first''"
  have h: "class_of ?x \<in> {NotStartedException, NotWindowsException,
                          MissingCommandException, QuestionableException}"
    by simp
  show ?thesis
    using h netbuddy_errors_bypass_Exception [OF h, of NetBuddyException]
      netbuddy_errors_bypass_Exception [OF h, of BaseException]
      netbuddy_errors_bypass_Exception [OF h, of OSError]
    by simp
qed

subsection \<open>The constructor\<close>

text \<open>
  C10. Constructing an instance is a call of \<^verbatim>\<open>start\<close>: \<^verbatim>\<open>__init__\<close> is the same
  function of the world and the session as \<^verbatim>\<open>start\<close>, and \<^verbatim>\<open>NetBuddy()\<close> leaves the
  same session, raises exactly the exceptions \<^verbatim>\<open>start\<close> raises, and yields the instance
  exactly when \<^verbatim>\<open>start\<close> returns. So it prints the notice when a session is active,
  raises \<^verbatim>\<open>NotWindowsException\<close> off Windows, and \<^verbatim>\<open>MissingCommandException\<close> when
  \<^verbatim>\<open>ping /?\<close> succeeds without output.
\<close>

theorem construct_is_start:
  "init e s = start e s \<and>
   snd (NetBuddy_new e s) = snd (start e s) \<and>
   (fst (NetBuddy_new e s) = Inl x \<longleftrightarrow> fst (start e s) = Inl x) \<and>
   (fst (NetBuddy_new e s) = Inr PyInstance \<longleftrightarrow> fst (start e s) = Inr PyNone) \<and>
   (active s \<longrightarrow>
      NetBuddy_new e s =
        (Inr PyInstance,
         s\<lparr>stdout := stdout s @
            [''A session is already active. To quit, use NetBuddy.quit().'']\<rparr>)) \<and>
   (\<not> active s \<and> os_name e \<noteq> ''nt'' \<longrightarrow>
      fst (NetBuddy_new e s) =
        Inl (NotWindowsExc ''This program is only supported on Windows.'')) \<and>
   (\<not> active s \<and> os_name e = ''nt'' \<and>
    proc e (length (calls s)) [''ping'', ''/?''] = Exited 0 [] \<longrightarrow>
      fst (NetBuddy_new e s) =
        Inl (MissingCommandExc
               ''Missing command 'ping'. This is unexpected for Windows devices.''))"
proof (intro conjI impI)
  show "init e s = start e s"
    by (rule init_start)
  show "snd (NetBuddy_new e s) = snd (start e s)"
    by (simp add: NetBuddy_new_start split: prod.splits sum.splits)
  show "(fst (NetBuddy_new e s) = Inl x) = (fst (start e s) = Inl x)"
    by (simp add: NetBuddy_new_start split: prod.splits sum.splits)
  show "(fst (NetBuddy_new e s) = Inr PyInstance) = (fst (start e s) = Inr PyNone)"
    by (auto simp: NetBuddy_new_start split: prod.splits sum.splits dest: start_returns_None)
next
  assume "active s"
  then show "NetBuddy_new e s =
        (Inr PyInstance,
         s\<lparr>stdout := stdout s @
            [''A session is already active. To quit, use NetBuddy.quit().'']\<rparr>)"
    by (simp add: NetBuddy_new_start start_def py_print_def)
next
  assume "\<not> active s \<and> os_name e \<noteq> ''nt''"
  then show "fst (NetBuddy_new e s) =
        Inl (NotWindowsExc ''This program is only supported on Windows.'')"
    by (simp add: NetBuddy_new_start start_def py_print_def Let_def)
next
  assume "\<not> active s \<and> os_name e = ''nt'' \<and>
    proc e (length (calls s)) [''ping'', ''/?''] = Exited 0 []"
  then show "fst (NetBuddy_new e s) =
        Inl (MissingCommandExc
               ''Missing command 'ping'. This is unexpected for Windows devices.'')"
    by (simp add: NetBuddy_new_start start_def check_output_def py_print_def Let_def)
qed

theorem construct_is_start_witness:
  "active running \<and>
   NetBuddy_new nt_env running =
     (Inr PyInstance,
      \<lparr>active = True,
       stdout = [''A session is already active. To quit, use NetBuddy.quit().''],
       calls = []\<rparr>) \<and>
   \<not> active initial \<and> os_name posix_env \<noteq> ''nt'' \<and>
   fst (NetBuddy_new posix_env initial) =
     Inl (NotWindowsExc ''This program is only supported on Windows.'') \<and>
   os_name nt_silent_ping = ''nt'' \<and>
   proc nt_silent_ping (length (calls initial)) [''ping'', ''/?''] = Exited 0 [] \<and>
   fst (NetBuddy_new nt_silent_ping initial) =
     Inl (MissingCommandExc
            ''Missing command 'ping'. This is unexpected for Windows devices.'')"
proof -
  have h: "active running" "\<not> active initial" "os_name posix_env \<noteq> ''nt''"
    "os_name nt_silent_ping = ''nt''"
    "proc nt_silent_ping (length (calls initial)) [''ping'', ''/?''] = Exited 0 []"
    by (simp_all add: running_def initial_def posix_env_def nt_silent_ping_def)
  show ?thesis
    using h construct_is_start [of nt_env running]
      construct_is_start [of posix_env initial] construct_is_start [of nt_silent_ping initial]
    by (simp add: running_def)
qed

end
